theory Spec2Isabelle
  imports Complex_Main
begin

section \<open>The pump.fun graduation estimator of the Bundly agent SDK\<close>

text \<open>
  This theory embeds \<^verbatim>\<open>calculateMinTokensForGraduation\<close> and the part of
  \<^verbatim>\<open>buildFinalizePumpfunInstruction\<close> that consumes it (both in
  \<^verbatim>\<open>src/instructions.js\<close>). The JavaScript works on \<^verbatim>\<open>BN\<close> values of the
  bn.js library, which are arbitrary-precision integers: they are modelled as \<^typ>\<open>int\<close>.
  Every \<^verbatim>\<open>throw\<close> is a value \<open>Inl e\<close>, and everything the functions do besides
  returning (the RPC call, the console output) is recorded in a list of effects.
\<close>

subsection \<open>Errors, effects and the sequencing of statements\<close>

datatype error = RpcFailure | AssertionFailed

datatype effect =
    RpcGetBalance
  | ConsoleLog
  | WarnNoGraduation
  | WarnNonPositive
  | WarnCapped
  | ConsoleError

text \<open>
  A statement either completes with a value or throws, and in both cases leaves the
  effects it had up to that point.
\<close>

type_synonym 'a js = "(error + 'a) \<times> effect list"

definition returnJ :: "'a \<Rightarrow> 'a js" where
  "returnJ v = (Inr v, [])"

definition liftE :: "error + 'a \<Rightarrow> 'a js" where
  "liftE r = (r, [])"

definition emit :: "effect \<Rightarrow> unit js" where
  "emit e = (Inr (), [e])"

definition bindJ :: "'a js \<Rightarrow> ('a \<Rightarrow> 'b js) \<Rightarrow> 'b js" where
  "bindJ m f =
     (case m of
        (Inl e, out) \<Rightarrow> (Inl e, out)
      | (Inr v, out) \<Rightarrow> (case f v of (r, out') \<Rightarrow> (r, out @ out')))"

definition catchJ :: "'a js \<Rightarrow> (error \<Rightarrow> 'a js) \<Rightarrow> 'a js" where
  "catchJ m h =
     (case m of
        (Inl e, out) \<Rightarrow> (case h e of (r, out') \<Rightarrow> (r, out @ out'))
      | (Inr v, out) \<Rightarrow> (Inr v, out))"

subsection \<open>The operations of bn.js that the estimator uses\<close>

text \<open>
  \<^verbatim>\<open>new BN(number)\<close> takes a JavaScript number; bn.js asserts that its magnitude is
  below \<open>2^53\<close> and throws otherwise. \<^verbatim>\<open>a.div(b)\<close> asserts that \<open>b\<close> is not zero
  and truncates the quotient toward zero. \<^verbatim>\<open>add\<close>, \<^verbatim>\<open>sub\<close>, \<^verbatim>\<open>mul\<close>
  and the comparisons are those of the integers.
\<close>

definition BN_ofNumber :: "int \<Rightarrow> error + int" where
  "BN_ofNumber n = (if \<bar>n\<bar> < 2 ^ 53 then Inr n else Inl AssertionFailed)"

definition BN_div :: "int \<Rightarrow> int \<Rightarrow> error + int" where
  "BN_div a b =
     (if b = 0 then Inl AssertionFailed
      else Inr (sgn a * sgn b * (\<bar>a\<bar> div \<bar>b\<bar>)))"

subsection \<open>The constants of the bonding curve\<close>

definition VIRTUAL_SOL_RESERVES :: int where
  "VIRTUAL_SOL_RESERVES = 30000000000"

definition VIRTUAL_TOKEN_RESERVES :: int where
  "VIRTUAL_TOKEN_RESERVES = 1073000000000000"

definition INITIAL_REAL_TOKEN_RESERVES :: int where
  "INITIAL_REAL_TOKEN_RESERVES = 793100000000000"

definition ESTIMATED_COSTS :: int where
  "ESTIMATED_COSTS = 14500000"

definition GRADUATION_THRESHOLD :: int where
  "GRADUATION_THRESHOLD = 85000000000"

subsection \<open>The arithmetic of the estimator\<close>

text \<open>
  The local variables of \<^verbatim>\<open>calculateMinTokensForGraduation\<close> between the
  conversion of the balance and the console output, in the order the source computes
  them. The division by \<open>finalSol\<close> is the only statement here that can throw.
\<close>

record curve =
  SOL_TO_SPEND :: int
  initialSol :: int
  initialTokens :: int
  k :: int
  finalSol :: int
  finalTokens :: int
  tokensOut :: int
  minTokensOut :: int

definition bondingCurve :: "int \<Rightarrow> error + curve" where
  "bondingCurve escrowBalanceBN =
     (let spend = escrowBalanceBN - ESTIMATED_COSTS;
          iSol = VIRTUAL_SOL_RESERVES;
          iTok = VIRTUAL_TOKEN_RESERVES;
          kk = iSol * iTok;
          fSol = VIRTUAL_SOL_RESERVES + spend
      in case BN_div kk fSol of
           Inl e \<Rightarrow> Inl e
         | Inr fTok \<Rightarrow>
             (let out = iTok - fTok
              in case BN_div (out * 90) 100 of
                   Inl e \<Rightarrow> Inl e
                 | Inr m \<Rightarrow>
                     Inr \<lparr>SOL_TO_SPEND = spend, initialSol = iSol, initialTokens = iTok,
                          k = kk, finalSol = fSol, finalTokens = fTok,
                          tokensOut = out, minTokensOut = m\<rparr>))"

subsection \<open>The estimator\<close>

text \<open>
  \<^verbatim>\<open>connection.getBalance(escrowPda)\<close> is a call to the RPC node: its answer is a
  parameter of the model, either the balance in lamports or a rejection.
\<close>

definition getBalance :: "error + int \<Rightarrow> int js" where
  "getBalance answer = (answer, [RpcGetBalance])"

text \<open>
  The statements of the \<^verbatim>\<open>try\<close> block that follow the conversion of the
  balance: the arithmetic, the console output, the advisory comparison with the
  graduation threshold and the three \<^verbatim>\<open>return\<close> statements. The eight
  \<^verbatim>\<open>console.log\<close> lines are one effect; they divide by the literal \<open>1e6\<close> only
  and cannot throw. Each warning is one effect, whatever its number of lines.
\<close>

definition graduationArithmetic :: "int \<Rightarrow> int js" where
  "graduationArithmetic escrowBalanceBN =
     bindJ (liftE (bondingCurve escrowBalanceBN)) (\<lambda>c.
     bindJ (emit ConsoleLog) (\<lambda>_.
     bindJ (if SOL_TO_SPEND c < GRADUATION_THRESHOLD
            then emit WarnNoGraduation else returnJ ()) (\<lambda>_.
     if tokensOut c \<le> 0
       then bindJ (emit WarnNonPositive) (\<lambda>_. returnJ 0)
     else if tokensOut c > INITIAL_REAL_TOKEN_RESERVES
       then bindJ (emit WarnCapped) (\<lambda>_.
            liftE (BN_div (INITIAL_REAL_TOKEN_RESERVES * 90) 100))
     else returnJ (minTokensOut c))))"

text \<open>The body of the \<^verbatim>\<open>try\<close> block.\<close>

definition graduationTry :: "error + int \<Rightarrow> int js" where
  "graduationTry answer =
     bindJ (getBalance answer) (\<lambda>escrowBalance.
     bindJ (liftE (BN_ofNumber escrowBalance)) (\<lambda>escrowBalanceBN.
     graduationArithmetic escrowBalanceBN))"

text \<open>
  The whole function: the \<^verbatim>\<open>catch\<close> block writes the error to the console and
  turns every throw into the result 0.
\<close>

definition calculateMinTokensForGraduation :: "error + int \<Rightarrow> int js" where
  "calculateMinTokensForGraduation answer =
     catchJ (graduationTry answer)
       (\<lambda>err. bindJ (emit ConsoleError) (\<lambda>_. returnJ 0))"

text \<open>
  The same computation with the comparison against \<open>GRADUATION_THRESHOLD\<close> taken out,
  for the comparison of the two.
\<close>

definition graduationArithmetic_noThreshold :: "int \<Rightarrow> int js" where
  "graduationArithmetic_noThreshold escrowBalanceBN =
     bindJ (liftE (bondingCurve escrowBalanceBN)) (\<lambda>c.
     bindJ (emit ConsoleLog) (\<lambda>_.
     if tokensOut c \<le> 0
       then bindJ (emit WarnNonPositive) (\<lambda>_. returnJ 0)
     else if tokensOut c > INITIAL_REAL_TOKEN_RESERVES
       then bindJ (emit WarnCapped) (\<lambda>_.
            liftE (BN_div (INITIAL_REAL_TOKEN_RESERVES * 90) 100))
     else returnJ (minTokensOut c)))"

definition calculateMinTokens_noThreshold :: "error + int \<Rightarrow> int js" where
  "calculateMinTokens_noThreshold answer =
     catchJ (bindJ (getBalance answer) (\<lambda>escrowBalance.
             bindJ (liftE (BN_ofNumber escrowBalance)) (\<lambda>escrowBalanceBN.
             graduationArithmetic_noThreshold escrowBalanceBN)))
       (\<lambda>err. bindJ (emit ConsoleError) (\<lambda>_. returnJ 0))"

subsection \<open>The consumer: the builder of the finalize instruction\<close>

text \<open>
  The parameter \<^verbatim>\<open>minTokensOut = null\<close> of the builder: the caller leaves it out
  (or passes \<^verbatim>\<open>undefined\<close>), passes \<^verbatim>\<open>null\<close>, or passes a number. The default
  value turns the first into \<^verbatim>\<open>null\<close>, so that inside the function the parameter
  is either \<^verbatim>\<open>null\<close> (\<open>None\<close>) or the caller's number.
\<close>

datatype 'a arg = Omitted | Null | Given 'a

record finalizeParams =
  tokenName :: string
  tokenSymbol :: string
  tokenUri :: string
  minTokensOutArg :: "int arg"

text \<open>
  The arguments that the builder hands to \<^verbatim>\<open>program.methods.finalizePumpfun\<close>;
  their encoding is Anchor's. The account list of the instruction is derived from the
  mints and the payer only, whatever \<^verbatim>\<open>minTokensOut\<close> is, and is left out.
\<close>

record finalizeIx =
  ixName :: string
  ixSymbol :: string
  ixUri :: string
  ixMinTokens :: int

definition withDefault :: "int arg \<Rightarrow> int option" where
  "withDefault a = (case a of Omitted \<Rightarrow> None | Null \<Rightarrow> None | Given v \<Rightarrow> Some v)"

definition buildFinalizePumpfunInstruction :: "error + int \<Rightarrow> finalizeParams \<Rightarrow> finalizeIx js" where
  "buildFinalizePumpfunInstruction answer p =
     bindJ (case withDefault (minTokensOutArg p) of
              None \<Rightarrow> calculateMinTokensForGraduation answer
            | Some v \<Rightarrow> liftE (BN_ofNumber v)) (\<lambda>minTokensBN.
     returnJ \<lparr>ixName = tokenName p, ixSymbol = tokenSymbol p, ixUri = tokenUri p,
              ixMinTokens = minTokensBN\<rparr>)"

section \<open>Facts about the model\<close>

subsection \<open>Unfolding and evaluation\<close>

lemmas js_defs = returnJ_def liftE_def emit_def bindJ_def catchJ_def getBalance_def
lemmas const_defs = VIRTUAL_SOL_RESERVES_def VIRTUAL_TOKEN_RESERVES_def INITIAL_REAL_TOKEN_RESERVES_def
  ESTIMATED_COSTS_def GRADUATION_THRESHOLD_def

lemma BN_div_pos: "0 \<le> a \<Longrightarrow> 0 < b \<Longrightarrow> BN_div a b = Inr (a div b)"
  by (cases "a = 0") (simp_all add: BN_div_def)

lemma BN_div_100: "BN_div a 100 = Inr (sgn a * (\<bar>a\<bar> div 100))"
  by (simp add: BN_div_def)

lemma cap_value: "BN_div (INITIAL_REAL_TOKEN_RESERVES * 90) 100 = Inr 713790000000000"
  by (simp add: BN_div_def INITIAL_REAL_TOKEN_RESERVES_def)

lemma bondingCurve_pos:
  assumes "ESTIMATED_COSTS - VIRTUAL_SOL_RESERVES < b"
  shows "bondingCurve b = Inr
     \<lparr>SOL_TO_SPEND = b - ESTIMATED_COSTS, initialSol = VIRTUAL_SOL_RESERVES,
      initialTokens = VIRTUAL_TOKEN_RESERVES,
      k = VIRTUAL_SOL_RESERVES * VIRTUAL_TOKEN_RESERVES,
      finalSol = VIRTUAL_SOL_RESERVES + (b - ESTIMATED_COSTS),
      finalTokens = (VIRTUAL_SOL_RESERVES * VIRTUAL_TOKEN_RESERVES) div (VIRTUAL_SOL_RESERVES + (b - ESTIMATED_COSTS)),
      tokensOut = VIRTUAL_TOKEN_RESERVES - (VIRTUAL_SOL_RESERVES * VIRTUAL_TOKEN_RESERVES) div (VIRTUAL_SOL_RESERVES + (b - ESTIMATED_COSTS)),
      minTokensOut = sgn ((VIRTUAL_TOKEN_RESERVES - (VIRTUAL_SOL_RESERVES * VIRTUAL_TOKEN_RESERVES) div (VIRTUAL_SOL_RESERVES + (b - ESTIMATED_COSTS))) * 90) *
         (\<bar>(VIRTUAL_TOKEN_RESERVES - (VIRTUAL_SOL_RESERVES * VIRTUAL_TOKEN_RESERVES) div (VIRTUAL_SOL_RESERVES + (b - ESTIMATED_COSTS))) * 90\<bar> div 100)\<rparr>"
proof -
  have fs: "0 < VIRTUAL_SOL_RESERVES + (b - ESTIMATED_COSTS)" using assms by simp
  have kk: "0 \<le> VIRTUAL_SOL_RESERVES * VIRTUAL_TOKEN_RESERVES" by (simp add: const_defs)
  show ?thesis
    unfolding bondingCurve_def Let_def BN_div_pos [OF kk fs] BN_div_100 by simp
qed

lemma bondingCurve_minTokensOut:
  "bondingCurve b = Inr c \<Longrightarrow> BN_div (tokensOut c * 90) 100 = Inr (minTokensOut c)"
  by (auto simp add: bondingCurve_def Let_def split: sum.splits)

lemma minTokensOut_pos:
  assumes "bondingCurve b = Inr c" "0 \<le> tokensOut c"
  shows "minTokensOut c = tokensOut c * 90 div 100"
  using bondingCurve_minTokensOut [OF assms(1)] assms(2) by (simp add: BN_div_pos)

lemma graduationArithmetic_throw:
  assumes "bondingCurve b = Inl e"
  shows "graduationArithmetic b = (Inl e, [])"
  using assms by (simp add: graduationArithmetic_def js_defs)

lemma calc_converted:
  assumes "BN_ofNumber n = Inr b"
  shows "calculateMinTokensForGraduation (Inr n) =
     (case graduationArithmetic b of
        (Inl e, out) \<Rightarrow> (Inr 0, RpcGetBalance # out @ [ConsoleError])
      | (Inr v, out) \<Rightarrow> (Inr v, RpcGetBalance # out))"
  using assms by (simp add: calculateMinTokensForGraduation_def graduationTry_def js_defs split: prod.splits sum.splits)

lemma calc_not_converted:
  assumes "BN_ofNumber n = Inl e"
  shows "calculateMinTokensForGraduation (Inr n) = (Inr 0, [RpcGetBalance, ConsoleError])"
  using assms by (simp add: calculateMinTokensForGraduation_def graduationTry_def js_defs split: prod.splits sum.splits)

lemma calc_rpc_failure:
  "calculateMinTokensForGraduation (Inl e) = (Inr 0, [RpcGetBalance, ConsoleError])"
  by (simp add: calculateMinTokensForGraduation_def graduationTry_def js_defs split: prod.splits sum.splits)

lemmas eval_defs = calculateMinTokensForGraduation_def graduationTry_def graduationArithmetic_def
  js_defs const_defs BN_ofNumber_def BN_div_def bondingCurve_def Let_def

lemma trunc_bounds:
  fixes a b :: int
  assumes "0 < b"
  shows "real_of_int (a div b) \<le> real_of_int a / real_of_int b"
    and "real_of_int a / real_of_int b < real_of_int (a div b) + 1"
proof -
  have "a div b = \<lfloor>real_of_int a / real_of_int b\<rfloor>"
    by (simp add: floor_divide_of_int_eq)
  then show "real_of_int (a div b) \<le> real_of_int a / real_of_int b"
    and "real_of_int a / real_of_int b < real_of_int (a div b) + 1"
    by linarith+
qed

subsection \<open>The arithmetic and the paths of the estimator\<close>

lemma BN_ofNumber_safe: "\<bar>n\<bar> < 2 ^ 53 \<Longrightarrow> BN_ofNumber n = Inr n"
  by (simp add: BN_ofNumber_def)

lemma bondingCurve_fields:
  assumes "bondingCurve b = Inr c"
  shows "SOL_TO_SPEND c = b - ESTIMATED_COSTS"
    and "initialSol c = VIRTUAL_SOL_RESERVES"
    and "initialTokens c = VIRTUAL_TOKEN_RESERVES"
    and "k c = VIRTUAL_SOL_RESERVES * VIRTUAL_TOKEN_RESERVES"
    and "finalSol c = VIRTUAL_SOL_RESERVES + (b - ESTIMATED_COSTS)"
    and "BN_div (k c) (finalSol c) = Inr (finalTokens c)"
    and "tokensOut c = VIRTUAL_TOKEN_RESERVES - finalTokens c"
  using assms by (auto simp add: bondingCurve_def Let_def split: sum.splits)

lemma finalTokens_pos:
  assumes "bondingCurve b = Inr c" "ESTIMATED_COSTS - VIRTUAL_SOL_RESERVES < b"
  shows "finalTokens c = (VIRTUAL_SOL_RESERVES * VIRTUAL_TOKEN_RESERVES) div finalSol c"
    and "0 < finalSol c"
  using assms bondingCurve_pos [OF assms(2)] by auto

lemma tokensOut_spend_pos:
  assumes c: "bondingCurve b = Inr c" and b: "ESTIMATED_COSTS < b"
  shows "35767 \<le> tokensOut c"
proof -
  have low: "ESTIMATED_COSTS - VIRTUAL_SOL_RESERVES < b"
    using b by (simp add: const_defs)
  have fs: "30000000001 \<le> finalSol c"
    using bondingCurve_fields(5) [OF c] b by (simp add: const_defs)
  have "(VIRTUAL_SOL_RESERVES * VIRTUAL_TOKEN_RESERVES) div finalSol c
        \<le> (VIRTUAL_SOL_RESERVES * VIRTUAL_TOKEN_RESERVES) div 30000000001"
    by (rule zdiv_mono2) (use fs in \<open>simp_all add: const_defs\<close>)
  also have "\<dots> = 1072999999964233" by (simp add: const_defs)
  finally have "finalTokens c \<le> 1072999999964233"
    using finalTokens_pos(1) [OF c low] by simp
  then show ?thesis
    using bondingCurve_fields(7) [OF c] by (simp add: const_defs)
qed

lemma tokensOut_spend_nonpos:
  assumes c: "bondingCurve b = Inr c" and low: "ESTIMATED_COSTS - VIRTUAL_SOL_RESERVES < b"
    and b: "b \<le> ESTIMATED_COSTS"
  shows "tokensOut c \<le> 0"
proof -
  have fs: "0 < finalSol c" "finalSol c \<le> VIRTUAL_SOL_RESERVES"
    using finalTokens_pos(2) [OF c low] bondingCurve_fields(5) [OF c] b by simp_all
  have "(VIRTUAL_SOL_RESERVES * VIRTUAL_TOKEN_RESERVES) div VIRTUAL_SOL_RESERVES
        \<le> (VIRTUAL_SOL_RESERVES * VIRTUAL_TOKEN_RESERVES) div finalSol c"
    by (rule zdiv_mono2) (use fs in \<open>simp_all add: const_defs\<close>)
  moreover have "(VIRTUAL_SOL_RESERVES * VIRTUAL_TOKEN_RESERVES) div VIRTUAL_SOL_RESERVES
        = VIRTUAL_TOKEN_RESERVES" by (simp add: const_defs)
  ultimately have "VIRTUAL_TOKEN_RESERVES \<le> finalTokens c"
    using finalTokens_pos(1) [OF c low] by simp
  then show ?thesis
    using bondingCurve_fields(7) [OF c] by simp
qed

lemma bondingCurve_defined:
  assumes "ESTIMATED_COSTS - VIRTUAL_SOL_RESERVES < b"
  shows "\<exists>c. bondingCurve b = Inr c"
  using bondingCurve_pos [OF assms] by simp

lemma graduationArithmetic_run:
  assumes "bondingCurve b = Inr c"
  shows "graduationArithmetic b =
    (Inr (if tokensOut c \<le> 0 then 0
          else if tokensOut c > INITIAL_REAL_TOKEN_RESERVES then 713790000000000
          else minTokensOut c),
     ConsoleLog #
     (if SOL_TO_SPEND c < GRADUATION_THRESHOLD then [WarnNoGraduation] else []) @
     (if tokensOut c \<le> 0 then [WarnNonPositive]
      else if tokensOut c > INITIAL_REAL_TOKEN_RESERVES then [WarnCapped] else []))"
  using assms by (simp add: graduationArithmetic_def js_defs cap_value)

lemma calc_run:
  assumes "\<bar>b\<bar> < 2 ^ 53" "bondingCurve b = Inr c"
  shows "calculateMinTokensForGraduation (Inr b) =
    (Inr (if tokensOut c \<le> 0 then 0
          else if tokensOut c > INITIAL_REAL_TOKEN_RESERVES then 713790000000000
          else minTokensOut c),
     RpcGetBalance # ConsoleLog #
     (if SOL_TO_SPEND c < GRADUATION_THRESHOLD then [WarnNoGraduation] else []) @
     (if tokensOut c \<le> 0 then [WarnNonPositive]
      else if tokensOut c > INITIAL_REAL_TOKEN_RESERVES then [WarnCapped] else []))"
  unfolding calc_converted [OF BN_ofNumber_safe [OF assms(1)]] graduationArithmetic_run [OF assms(2)]
  by simp

subsection \<open>Division by a growing divisor\<close>

lemma div_strict_antimono:
  fixes a x y :: int
  assumes y: "0 < y" and yx: "y < x" and sq: "x * x \<le> a"
  shows "a div x < a div y"
proof -
  define q where "q = a div x"
  have xpos: "0 < x" using y yx by simp
  have "x * x div x \<le> a div x"
    by (rule zdiv_mono1) (use sq xpos in simp_all)
  then have xq: "x \<le> q" using xpos by (simp add: q_def)
  have "a = q * x + a mod x" by (simp add: q_def)
  moreover have "0 \<le> a mod x" using xpos by simp
  ultimately have qx: "q * x \<le> a" by linarith
  have "(q + 1) * y \<le> (q + 1) * (x - 1)"
    by (rule mult_left_mono) (use xq xpos yx in simp_all)
  also have "\<dots> = q * x + (x - q) - 1" by (simp add: algebra_simps)
  also have "\<dots> \<le> q * x - 1" using xq by simp
  also have "\<dots> < a" using qx by simp
  finally have le: "(q + 1) * y \<le> a" by simp
  have "(q + 1) * y div y \<le> a div y"
    by (rule zdiv_mono1) (use le y in simp_all)
  then have "q + 1 \<le> a div y" using y by simp
  then show ?thesis by (simp add: q_def)
qed

lemma div_mult_bounds:
  fixes a x :: int
  assumes "0 < x"
  shows "a div x * x \<le> a" and "a < (a div x + 1) * x"
proof -
  have e: "a = a div x * x + a mod x" by simp
  have "0 \<le> a mod x" "a mod x < x" using assms by simp_all
  with e show "a div x * x \<le> a" by linarith
  from e \<open>a mod x < x\<close> have "a < a div x * x + x" by linarith
  then show "a < (a div x + 1) * x" by (simp add: algebra_simps)
qed

lemma unclamped_below_root:
  assumes c: "bondingCurve b = Inr c" and low: "ESTIMATED_COSTS - VIRTUAL_SOL_RESERVES < b"
    and u: "tokensOut c \<le> INITIAL_REAL_TOKEN_RESERVES"
  shows "finalSol c * finalSol c \<le> k c"
proof -
  have fs: "0 < finalSol c" by (rule finalTokens_pos(2) [OF c low])
  have kc: "k c = 32190000000000000000000000"
    using bondingCurve_fields(4) [OF c] by (simp add: const_defs)
  have ft: "finalTokens c = k c div finalSol c"
    using finalTokens_pos(1) [OF c low] bondingCurve_fields(4) [OF c] by simp
  have big: "279900000000000 \<le> finalTokens c"
    using u bondingCurve_fields(7) [OF c] by (simp add: const_defs)
  have m: "finalTokens c * finalSol c \<le> k c"
    unfolding ft by (rule div_mult_bounds(1) [OF fs])
  have "279900000000000 * finalSol c \<le> finalTokens c * finalSol c"
    by (rule mult_right_mono) (use big fs in simp_all)
  with m kc have lin: "279900000000000 * finalSol c \<le> 32190000000000000000000000" by simp
  then have "finalSol c \<le> 279900000000000" using fs by linarith
  then have "finalSol c * finalSol c \<le> finalTokens c * finalSol c"
    using big fs by (intro mult_right_mono) simp_all
  with m show ?thesis by simp
qed

lemma minTokensOut_spend_pos:
  assumes c: "bondingCurve b = Inr c" and b: "ESTIMATED_COSTS < b"
  shows "32190 \<le> minTokensOut c"
proof -
  have t: "35767 \<le> tokensOut c" by (rule tokensOut_spend_pos [OF c b])
  then have m: "minTokensOut c = tokensOut c * 90 div 100"
    using minTokensOut_pos [OF c] by simp
  have "(35767 * 90 :: int) div 100 \<le> tokensOut c * 90 div 100"
    by (rule zdiv_mono1) (use t in simp_all)
  then show ?thesis unfolding m by simp
qed

lemma arithmetic_effects:
  "ConsoleError \<notin> set (snd (graduationArithmetic b)) \<and>
   RpcGetBalance \<notin> set (snd (graduationArithmetic b))"
  by (cases "bondingCurve b")
     (simp_all add: graduationArithmetic_throw graduationArithmetic_run)

lemma calc_returns:
  "\<exists>m out. calculateMinTokensForGraduation answer = (Inr m, RpcGetBalance # out)"
  by (auto simp add: calculateMinTokensForGraduation_def graduationTry_def js_defs
      split: sum.splits prod.splits)

section \<open>The claims\<close>

subsection \<open>C1: the golden-value scenario\<close>

text \<open>
  C1, as stated: at an escrow balance of 100_000_000_000 lamports the estimator returns
  \<open>tokensExpected * 90 / 100\<close>. It does not: the \<open>tokensExpected\<close> it computes,
  825_356_993_664_678, is above \<open>INITIAL_REAL_TOKEN_RESERVES\<close>, so the function leaves
  through the capping \<^verbatim>\<open>return\<close> and the result is not 742_821_294_298_210.
\<close>

theorem C1_golden_counterexample:
  "\<not> isl (bondingCurve 100000000000) \<and>
   tokensOut (projr (bondingCurve 100000000000)) = 825356993664678 \<and>
   fst (calculateMinTokensForGraduation (Inr 100000000000)) \<noteq> Inr (825356993664678 * 90 div 100)"
  by (simp add: eval_defs)

text \<open>
  C1, amended: at an escrow balance of 100_000_000_000 lamports the estimator computes
  spendable = 99_985_500_000, k = 30_000_000_000 * 1_073_000_000_000_000,
  finalBase = 129_985_500_000, finalTokens = k / finalBase = 247_643_006_335_322,
  tokensExpected = 825_356_993_664_678 and the local
  \<open>minTokensOut = tokensExpected * 90 / 100 = 742_821_294_298_210\<close>; since
  tokensExpected exceeds the initial real token reserves, it warns and returns the cap
  \<open>INITIAL_REAL_TOKEN_RESERVES * 90 / 100 = 713_790_000_000_000\<close>.
\<close>

theorem C1_golden_clamped:
  "bondingCurve 100000000000 =
     Inr \<lparr>SOL_TO_SPEND = 99985500000, initialSol = 30000000000,
          initialTokens = 1073000000000000, k = 30000000000 * 1073000000000000,
          finalSol = 129985500000, finalTokens = 247643006335322,
          tokensOut = 825356993664678, minTokensOut = 742821294298210\<rparr> \<and>
   (30000000000 * 1073000000000000) div 129985500000 = (247643006335322 :: int) \<and>
   1073000000000000 - 247643006335322 = (825356993664678 :: int) \<and>
   825356993664678 * 90 div 100 = (742821294298210 :: int) \<and>
   INITIAL_REAL_TOKEN_RESERVES < 825356993664678 \<and>
   INITIAL_REAL_TOKEN_RESERVES * 90 div 100 = 713790000000000 \<and>
   calculateMinTokensForGraduation (Inr 100000000000) =
     (Inr 713790000000000, [RpcGetBalance, ConsoleLog, WarnCapped])"
  by (simp add: eval_defs)

subsection \<open>C2: the rounding direction of the curve division\<close>

text \<open>
  C2, as stated: truncation overestimates finalTokens against the exact quotient and so
  underestimates tokensExpected. At an escrow balance of 14_500_001 lamports (spendable
  1) it is the other way round: finalTokens is strictly below \<open>k / finalSol\<close> and
  tokensExpected strictly above \<open>initialTokens - k / finalSol\<close>.
\<close>

theorem C2_rounding_counterexample:
  "\<not> isl (bondingCurve 14500001) \<and>
   0 < SOL_TO_SPEND (projr (bondingCurve 14500001)) \<and>
   real_of_int (finalTokens (projr (bondingCurve 14500001))) <
     real_of_int (k (projr (bondingCurve 14500001))) /
     real_of_int (finalSol (projr (bondingCurve 14500001))) \<and>
   real_of_int (initialTokens (projr (bondingCurve 14500001))) -
     real_of_int (k (projr (bondingCurve 14500001))) /
     real_of_int (finalSol (projr (bondingCurve 14500001)))
     < real_of_int (tokensOut (projr (bondingCurve 14500001)))"
  by (simp add: eval_defs)

text \<open>
  C2, amended: for every spendable amount above zero the division does not throw, and
  truncation never overestimates finalTokens: finalTokens is at most the exact quotient
  \<open>k / finalSol\<close> and less than one below it. Hence tokensExpected is never
  underestimated: it is at least \<open>initialTokens - k / finalSol\<close> and less than one
  above it. The same holds of \<^verbatim>\<open>div\<close> for any positive curve constants.
\<close>

theorem C2_truncation_direction:
  assumes "ESTIMATED_COSTS < b"
  shows "(\<exists>c. bondingCurve b = Inr c \<and> 0 < SOL_TO_SPEND c \<and> 0 < finalSol c \<and>
     real_of_int (finalTokens c) \<le> real_of_int (k c) / real_of_int (finalSol c) \<and>
     real_of_int (k c) / real_of_int (finalSol c) < real_of_int (finalTokens c) + 1 \<and>
     real_of_int (initialTokens c) - real_of_int (k c) / real_of_int (finalSol c)
       \<le> real_of_int (tokensOut c) \<and>
     real_of_int (tokensOut c)
       < real_of_int (initialTokens c) - real_of_int (k c) / real_of_int (finalSol c) + 1) \<and>
   (0 < vSol \<and> 0 < vTok \<and> 0 < spend \<longrightarrow>
     (\<exists>q. BN_div (vSol * vTok) (vSol + spend) = Inr q \<and>
        real_of_int q \<le> real_of_int (vSol * vTok) / real_of_int (vSol + spend) \<and>
        real_of_int (vSol * vTok) / real_of_int (vSol + spend) < real_of_int q + 1))"
proof (intro conjI impI)
  have low: "ESTIMATED_COSTS - VIRTUAL_SOL_RESERVES < b"
    using assms by (simp add: const_defs)
  have fs: "0 < VIRTUAL_SOL_RESERVES + (b - ESTIMATED_COSTS)"
    using assms by (simp add: const_defs)
  note t = trunc_bounds [OF fs, of "VIRTUAL_SOL_RESERVES * VIRTUAL_TOKEN_RESERVES"]
  show "\<exists>c. bondingCurve b = Inr c \<and> 0 < SOL_TO_SPEND c \<and> 0 < finalSol c \<and>
     real_of_int (finalTokens c) \<le> real_of_int (k c) / real_of_int (finalSol c) \<and>
     real_of_int (k c) / real_of_int (finalSol c) < real_of_int (finalTokens c) + 1 \<and>
     real_of_int (initialTokens c) - real_of_int (k c) / real_of_int (finalSol c)
       \<le> real_of_int (tokensOut c) \<and>
     real_of_int (tokensOut c)
       < real_of_int (initialTokens c) - real_of_int (k c) / real_of_int (finalSol c) + 1"
    unfolding bondingCurve_pos [OF low]
    using assms fs t by simp
next
  assume pos: "0 < vSol \<and> 0 < vTok \<and> 0 < spend"
  then have d: "0 < vSol + spend" and n: "0 \<le> vSol * vTok" by simp_all
  show "\<exists>q. BN_div (vSol * vTok) (vSol + spend) = Inr q \<and>
        real_of_int q \<le> real_of_int (vSol * vTok) / real_of_int (vSol + spend) \<and>
        real_of_int (vSol * vTok) / real_of_int (vSol + spend) < real_of_int q + 1"
    unfolding BN_div_pos [OF n d]
    using trunc_bounds [OF d, of "vSol * vTok"] by simp
qed

text \<open>The least amount to spend, for the estimator and for a small curve of its own.\<close>

theorem C2_truncation_direction_witness:
  "ESTIMATED_COSTS < 14500001 \<and> (0 :: int) < 3 \<and> (0 :: int) < 7 \<and> (0 :: int) < 2 \<and>
   (\<exists>c. bondingCurve 14500001 = Inr c \<and> finalTokens c = 1072999999964233 \<and>
     real_of_int (finalTokens c) \<le> real_of_int (k c) / real_of_int (finalSol c)) \<and>
   BN_div (3 * 7) (3 + 2) = Inr 4"
proof -
  have h: "ESTIMATED_COSTS < 14500001" by (simp add: ESTIMATED_COSTS_def)
  note w = C2_truncation_direction [OF h, of 3 7 2]
  from w obtain c where
    c: "bondingCurve 14500001 = Inr c"
       "real_of_int (finalTokens c) \<le> real_of_int (k c) / real_of_int (finalSol c)"
    by blast
  from c(1) have "finalTokens c = 1072999999964233"
    by (auto simp add: eval_defs)
  moreover from w obtain q where "BN_div (3 * 7) (3 + 2) = Inr q" by auto
  then have "BN_div (3 * 7) (3 + 2) = Inr 4" by (simp add: BN_div_def)
  ultimately show ?thesis using h c by auto
qed

subsection \<open>C3: the slippage margin\<close>

text \<open>
  C3, as stated: on the normal path the estimator returns the floor of 90 percent of
  tokensExpected, and the value returned is always at most tokensExpected. The second
  half fails when the escrow does not cover the estimated costs: at an escrow balance
  of 0 the estimator computes tokensExpected = -518_867_452_602 and returns 0, which is
  above it.
\<close>

theorem C3_always_counterexample:
  "\<not> isl (bondingCurve 0) \<and>
   tokensOut (projr (bondingCurve 0)) = - 518867452602 \<and>
   fst (calculateMinTokensForGraduation (Inr 0)) = Inr 0 \<and>
   \<not> (0 :: int) \<le> tokensOut (projr (bondingCurve 0))"
  by (simp add: eval_defs)

text \<open>
  C3, amended: whenever the estimator computes a positive tokensExpected that does not
  exceed the initial real token reserves (the normal path: nothing thrown, nothing
  capped), it returns exactly \<open>tokensExpected * 90 div 100\<close>, the floor of 90 percent;
  whenever the tokensExpected it computes is not negative, capped or not, the value
  returned is at most tokensExpected; and when tokensExpected is negative it returns 0.
\<close>

theorem C3_slippage_margin:
  assumes "\<bar>b\<bar> < 2 ^ 53" and "bondingCurve b = Inr c"
  shows "(0 < tokensOut c \<and> tokensOut c \<le> INITIAL_REAL_TOKEN_RESERVES \<longrightarrow>
            fst (calculateMinTokensForGraduation (Inr b)) = Inr (tokensOut c * 90 div 100)) \<and>
         (0 \<le> tokensOut c \<longrightarrow>
            (\<exists>m. fst (calculateMinTokensForGraduation (Inr b)) = Inr m \<and> 0 \<le> m \<and> m \<le> tokensOut c)) \<and>
         (tokensOut c < 0 \<longrightarrow>
            fst (calculateMinTokensForGraduation (Inr b)) = Inr 0)"
proof (intro conjI impI)
  assume n: "0 < tokensOut c \<and> tokensOut c \<le> INITIAL_REAL_TOKEN_RESERVES"
  then have "minTokensOut c = tokensOut c * 90 div 100"
    using minTokensOut_pos [OF assms(2)] by simp
  then show "fst (calculateMinTokensForGraduation (Inr b)) = Inr (tokensOut c * 90 div 100)"
    unfolding calc_run [OF assms] using n by simp
next
  assume p: "0 \<le> tokensOut c"
  have m: "minTokensOut c = tokensOut c * 90 div 100"
    using minTokensOut_pos [OF assms(2) p] .
  have le: "tokensOut c * 90 div 100 \<le> tokensOut c" "0 \<le> tokensOut c * 90 div 100"
    using p by simp_all
  show "\<exists>m. fst (calculateMinTokensForGraduation (Inr b)) = Inr m \<and> 0 \<le> m \<and> m \<le> tokensOut c"
    unfolding calc_run [OF assms] using p m le
    by (simp add: INITIAL_REAL_TOKEN_RESERVES_def)
next
  assume "tokensOut c < 0"
  then show "fst (calculateMinTokensForGraduation (Inr b)) = Inr 0"
    unfolding calc_run [OF assms] by simp
qed

text \<open>
  The three cases: 35_767 tokens expected at an escrow balance of 14_500_001 lamports,
  none at 14_500_000, a negative number at 0.
\<close>

theorem C3_slippage_margin_witness:
  "\<bar>14500001 :: int\<bar> < 2 ^ 53 \<and> \<bar>14500000 :: int\<bar> < 2 ^ 53 \<and> \<bar>0 :: int\<bar> < 2 ^ 53 \<and>
   (\<exists>c. bondingCurve 14500001 = Inr c \<and> tokensOut c = 35767 \<and>
        tokensOut c \<le> INITIAL_REAL_TOKEN_RESERVES) \<and>
   fst (calculateMinTokensForGraduation (Inr 14500001)) = Inr (35767 * 90 div 100) \<and>
   (\<exists>c m. bondingCurve 14500000 = Inr c \<and> tokensOut c = 0 \<and>
        fst (calculateMinTokensForGraduation (Inr 14500000)) = Inr m \<and> m \<le> tokensOut c) \<and>
   (\<exists>c. bondingCurve 0 = Inr c \<and> tokensOut c < 0) \<and>
   fst (calculateMinTokensForGraduation (Inr 0)) = Inr 0"
proof -
  have s1: "\<bar>14500001 :: int\<bar> < 2 ^ 53" and s2: "\<bar>14500000 :: int\<bar> < 2 ^ 53"
    and s3: "\<bar>0 :: int\<bar> < 2 ^ 53" by simp_all
  obtain c1 where c1: "bondingCurve 14500001 = Inr c1" and t1: "tokensOut c1 = 35767"
    by (simp add: eval_defs)
  obtain c2 where c2: "bondingCurve 14500000 = Inr c2" and t2: "tokensOut c2 = 0"
    by (simp add: eval_defs)
  obtain c3 where c3: "bondingCurve 0 = Inr c3" and t3: "tokensOut c3 < 0"
    by (simp add: eval_defs)
  have i1: "tokensOut c1 \<le> INITIAL_REAL_TOKEN_RESERVES"
    using t1 by (simp add: INITIAL_REAL_TOKEN_RESERVES_def)
  from C3_slippage_margin [OF s1 c1] t1 i1
  have r1: "fst (calculateMinTokensForGraduation (Inr 14500001)) = Inr (35767 * 90 div 100)"
    by simp
  from C3_slippage_margin [OF s2 c2] t2
  obtain m where r2: "fst (calculateMinTokensForGraduation (Inr 14500000)) = Inr m" "m \<le> tokensOut c2"
    by auto
  from C3_slippage_margin [OF s3 c3] t3
  have r3: "fst (calculateMinTokensForGraduation (Inr 0)) = Inr 0" by simp
  from s1 s2 s3 c1 t1 i1 r1 c2 t2 r2 c3 t3 r3 show ?thesis by blast
qed

subsection \<open>C4: the ceiling clamp\<close>

text \<open>
  C4: whenever the tokensExpected that the estimator computes exceeds
  \<open>INITIAL_REAL_TOKEN_RESERVES\<close>, it warns and returns exactly
  \<open>INITIAL_REAL_TOKEN_RESERVES * 90 div 100\<close>, whatever the amount to spend.
\<close>

theorem C4_ceiling_clamp:
  assumes "\<bar>b\<bar> < 2 ^ 53" and "bondingCurve b = Inr c"
    and "INITIAL_REAL_TOKEN_RESERVES < tokensOut c"
  shows "fst (calculateMinTokensForGraduation (Inr b)) = Inr (INITIAL_REAL_TOKEN_RESERVES * 90 div 100) \<and>
         WarnCapped \<in> set (snd (calculateMinTokensForGraduation (Inr b)))"
proof -
  have "0 < tokensOut c"
    using assms(3) by (simp add: INITIAL_REAL_TOKEN_RESERVES_def)
  then show ?thesis
    unfolding calc_run [OF assms(1,2)] using assms(3)
    by (simp add: INITIAL_REAL_TOKEN_RESERVES_def)
qed

text \<open>The clamp at an escrow balance of 200 SOL.\<close>

theorem C4_ceiling_clamp_witness:
  "\<bar>200000000000 :: int\<bar> < 2 ^ 53 \<and>
   (\<exists>c. bondingCurve 200000000000 = Inr c \<and> INITIAL_REAL_TOKEN_RESERVES < tokensOut c) \<and>
   fst (calculateMinTokensForGraduation (Inr 200000000000)) = Inr 713790000000000"
proof -
  have s: "\<bar>200000000000 :: int\<bar> < 2 ^ 53" by simp
  obtain c where c: "bondingCurve 200000000000 = Inr c"
    and t: "INITIAL_REAL_TOKEN_RESERVES < tokensOut c"
    by (simp add: eval_defs)
  from C4_ceiling_clamp [OF s c t]
  have "fst (calculateMinTokensForGraduation (Inr 200000000000)) = Inr 713790000000000"
    by (simp add: INITIAL_REAL_TOKEN_RESERVES_def)
  with s c t show ?thesis by blast
qed

subsection \<open>C5: the insufficient-escrow boundary\<close>

text \<open>
  C5: every escrow balance from 0 up to and including \<open>ESTIMATED_COSTS\<close> makes the
  estimator warn and return 0 through its \<open>tokens_out \<le> 0\<close> check (the source has no
  other test for an escrow that does not cover the costs), while the balance
  \<open>ESTIMATED_COSTS + 1\<close> takes none of the warning returns and yields 32_190.
\<close>

theorem C5_insufficient_escrow_boundary:
  "(0 \<le> b \<and> b \<le> ESTIMATED_COSTS \<longrightarrow>
      calculateMinTokensForGraduation (Inr b) =
        (Inr 0, [RpcGetBalance, ConsoleLog, WarnNoGraduation, WarnNonPositive])) \<and>
   calculateMinTokensForGraduation (Inr (ESTIMATED_COSTS + 1)) =
        (Inr 32190, [RpcGetBalance, ConsoleLog, WarnNoGraduation])"
proof (intro conjI impI)
  assume b: "0 \<le> b \<and> b \<le> ESTIMATED_COSTS"
  then have low: "ESTIMATED_COSTS - VIRTUAL_SOL_RESERVES < b"
    and safe: "\<bar>b\<bar> < 2 ^ 53"
    by (simp_all add: const_defs)
  from bondingCurve_defined [OF low] obtain c where c: "bondingCurve b = Inr c" ..
  have out: "tokensOut c \<le> 0"
    using tokensOut_spend_nonpos [OF c low] b by simp
  have spend: "SOL_TO_SPEND c < GRADUATION_THRESHOLD"
    using bondingCurve_fields(1) [OF c] b by (simp add: const_defs)
  show "calculateMinTokensForGraduation (Inr b) =
        (Inr 0, [RpcGetBalance, ConsoleLog, WarnNoGraduation, WarnNonPositive])"
    unfolding calc_run [OF safe c] using out spend by simp
next
  show "calculateMinTokensForGraduation (Inr (ESTIMATED_COSTS + 1)) =
        (Inr 32190, [RpcGetBalance, ConsoleLog, WarnNoGraduation])"
    by (simp add: eval_defs)
qed

text \<open>The boundary itself: an escrow balance equal to the estimated costs.\<close>

theorem C5_insufficient_escrow_boundary_witness:
  "0 \<le> (14500000 :: int) \<and> 14500000 \<le> ESTIMATED_COSTS \<and>
   calculateMinTokensForGraduation (Inr 14500000) =
     (Inr 0, [RpcGetBalance, ConsoleLog, WarnNoGraduation, WarnNonPositive]) \<and>
   calculateMinTokensForGraduation (Inr 14500001) =
     (Inr 32190, [RpcGetBalance, ConsoleLog, WarnNoGraduation])"
  using C5_insufficient_escrow_boundary [of 14500000] by (simp add: ESTIMATED_COSTS_def)

subsection \<open>C6: monotonicity of tokensExpected\<close>

text \<open>
  C6, as stated: tokensExpected is strictly increasing in the amount to spend. Once
  \<open>finalSol\<close> is beyond the square root of \<open>k\<close>, one more lamport no longer moves the
  truncated quotient: the amounts 9_970_000_000_001 and 9_970_000_000_002 give the same
  tokensExpected, 1_069_781_000_000_001.
\<close>

theorem C6_monotonicity_counterexample:
  "\<not> isl (bondingCurve 9970014500001) \<and> \<not> isl (bondingCurve 9970014500002) \<and>
   0 < SOL_TO_SPEND (projr (bondingCurve 9970014500001)) \<and>
   SOL_TO_SPEND (projr (bondingCurve 9970014500001)) < SOL_TO_SPEND (projr (bondingCurve 9970014500002)) \<and>
   \<not> tokensOut (projr (bondingCurve 9970014500001)) < tokensOut (projr (bondingCurve 9970014500002))"
  by (simp add: eval_defs)

text \<open>
  C6, amended: for all amounts to spend \<open>0 < s1 < s2\<close>, tokensExpected at \<open>s1\<close> is at
  most tokensExpected at \<open>s2\<close>; it is strictly less whenever
  \<open>finalSol * finalSol \<le> k\<close> at \<open>s2\<close>, and in particular whenever tokensExpected at
  \<open>s2\<close> does not exceed the initial real token reserves (the range that is not capped).
\<close>

theorem C6_monotonicity:
  assumes b1: "ESTIMATED_COSTS < b1" and b12: "b1 < b2"
  shows "\<exists>c1 c2. bondingCurve b1 = Inr c1 \<and> bondingCurve b2 = Inr c2 \<and>
     0 < SOL_TO_SPEND c1 \<and> SOL_TO_SPEND c1 < SOL_TO_SPEND c2 \<and>
     tokensOut c1 \<le> tokensOut c2 \<and>
     (finalSol c2 * finalSol c2 \<le> k c2 \<longrightarrow> tokensOut c1 < tokensOut c2) \<and>
     (tokensOut c2 \<le> INITIAL_REAL_TOKEN_RESERVES \<longrightarrow> tokensOut c1 < tokensOut c2)"
proof -
  have low1: "ESTIMATED_COSTS - VIRTUAL_SOL_RESERVES < b1"
    and low2: "ESTIMATED_COSTS - VIRTUAL_SOL_RESERVES < b2"
    using b1 b12 by (simp_all add: const_defs)
  obtain c1 where c1: "bondingCurve b1 = Inr c1" using bondingCurve_defined [OF low1] ..
  obtain c2 where c2: "bondingCurve b2 = Inr c2" using bondingCurve_defined [OF low2] ..
  let ?K = "VIRTUAL_SOL_RESERVES * VIRTUAL_TOKEN_RESERVES"
  have K: "0 \<le> ?K" by (simp add: const_defs)
  have fs1: "0 < finalSol c1" by (rule finalTokens_pos(2) [OF c1 low1])
  have fs12: "finalSol c1 < finalSol c2"
    using bondingCurve_fields(5) [OF c1] bondingCurve_fields(5) [OF c2] b12 by simp
  have ft1: "finalTokens c1 = ?K div finalSol c1" by (rule finalTokens_pos(1) [OF c1 low1])
  have ft2: "finalTokens c2 = ?K div finalSol c2" by (rule finalTokens_pos(1) [OF c2 low2])
  have k2: "k c2 = ?K" by (rule bondingCurve_fields(4) [OF c2])
  have t1: "tokensOut c1 = VIRTUAL_TOKEN_RESERVES - finalTokens c1"
    by (rule bondingCurve_fields(7) [OF c1])
  have t2: "tokensOut c2 = VIRTUAL_TOKEN_RESERVES - finalTokens c2"
    by (rule bondingCurve_fields(7) [OF c2])
  have spend: "0 < SOL_TO_SPEND c1" "SOL_TO_SPEND c1 < SOL_TO_SPEND c2"
    using bondingCurve_fields(1) [OF c1] bondingCurve_fields(1) [OF c2] b1 b12 by simp_all
  have "?K div finalSol c2 \<le> ?K div finalSol c1"
    by (rule zdiv_mono2) (use K fs1 fs12 in simp_all)
  then have weak: "tokensOut c1 \<le> tokensOut c2"
    unfolding t1 t2 ft1 ft2 by simp
  have strict: "tokensOut c1 < tokensOut c2" if "finalSol c2 * finalSol c2 \<le> k c2"
  proof -
    have "?K div finalSol c2 < ?K div finalSol c1"
      by (rule div_strict_antimono) (use that k2 fs1 fs12 in simp_all)
    then show ?thesis unfolding t1 t2 ft1 ft2 by simp
  qed
  have strict': "tokensOut c1 < tokensOut c2" if "tokensOut c2 \<le> INITIAL_REAL_TOKEN_RESERVES"
    by (rule strict) (rule unclamped_below_root [OF c2 low2 that])
  from c1 c2 spend weak strict strict' show ?thesis by blast
qed

text \<open>Two neighbouring balances just above the estimated costs.\<close>

theorem C6_monotonicity_witness:
  "ESTIMATED_COSTS < 14500001 \<and> (14500001 :: int) < 14500002 \<and>
   (\<exists>c1 c2. bondingCurve 14500001 = Inr c1 \<and> bondingCurve 14500002 = Inr c2 \<and>
      tokensOut c1 = 35767 \<and> tokensOut c2 = 71534 \<and>
      finalSol c2 * finalSol c2 \<le> k c2 \<and> tokensOut c2 \<le> INITIAL_REAL_TOKEN_RESERVES \<and>
      tokensOut c1 < tokensOut c2)"
proof -
  have h1: "ESTIMATED_COSTS < 14500001" by (simp add: ESTIMATED_COSTS_def)
  have h2: "(14500001 :: int) < 14500002" by simp
  from C6_monotonicity [OF h1 h2] obtain c1 c2 where
    c: "bondingCurve 14500001 = Inr c1" "bondingCurve 14500002 = Inr c2"
    and s: "tokensOut c2 \<le> INITIAL_REAL_TOKEN_RESERVES \<longrightarrow> tokensOut c1 < tokensOut c2"
    by blast
  from c(1) have v1: "tokensOut c1 = 35767" by (auto simp add: eval_defs)
  from c(2) have v2: "tokensOut c2 = 71534" "finalSol c2 * finalSol c2 \<le> k c2"
    by (auto simp add: eval_defs)
  have u: "tokensOut c2 \<le> INITIAL_REAL_TOKEN_RESERVES"
    using v2 by (simp add: INITIAL_REAL_TOKEN_RESERVES_def)
  with s have "tokensOut c1 < tokensOut c2" by simp
  with h1 h2 c v1 v2 u show ?thesis by blast
qed

subsection \<open>C7: arithmetic safety\<close>

text \<open>
  C7, as stated: for every non-negative escrow balance the only failure outcomes are the
  zero results for an insufficient escrow and for a non-positive tokensExpected. A
  balance of \<open>2^53 = 9_007_199_254_740_992\<close> lamports is a third one: the conversion
  \<^verbatim>\<open>new BN(escrowBalance)\<close> throws, the \<^verbatim>\<open>catch\<close> block logs the error and
  returns 0, although the amount to spend and the tokensExpected the arithmetic yields
  for this balance are both positive.
\<close>

theorem C7_third_failure_counterexample:
  "(0 :: int) \<le> 9007199254740992 \<and>
   calculateMinTokensForGraduation (Inr 9007199254740992) = (Inr 0, [RpcGetBalance, ConsoleError]) \<and>
   \<not> isl (bondingCurve 9007199254740992) \<and>
   0 < SOL_TO_SPEND (projr (bondingCurve 9007199254740992)) \<and>
   0 < tokensOut (projr (bondingCurve 9007199254740992))"
  by (simp add: eval_defs)

text \<open>
  C7, amended: for every non-negative escrow balance the arithmetic of the estimator
  never throws: \<open>finalSol = VIRTUAL_SOL_RESERVES + SOL_TO_SPEND\<close> is strictly positive,
  \<open>k\<close>, \<open>finalTokens\<close> and \<open>tokensOut\<close> are the exact integers (the quotient is the
  floor of \<open>k / finalSol\<close>), and the arithmetic yields 0 exactly when the amount to
  spend is not positive, which is exactly when tokensExpected is not positive. For
  every balance below \<open>2^53\<close> this is the result of the whole estimator, whose
  \<^verbatim>\<open>catch\<close> block is then never entered; from \<open>2^53\<close> on the conversion of the
  balance throws and the \<^verbatim>\<open>catch\<close> block returns 0.
\<close>

theorem C7_arithmetic_safety:
  assumes "0 \<le> b"
  shows "\<exists>c v. bondingCurve b = Inr c \<and>
     finalSol c = VIRTUAL_SOL_RESERVES + SOL_TO_SPEND c \<and> 0 < finalSol c \<and>
     k c = VIRTUAL_SOL_RESERVES * VIRTUAL_TOKEN_RESERVES \<and>
     finalTokens c * finalSol c \<le> k c \<and> k c < (finalTokens c + 1) * finalSol c \<and>
     tokensOut c = VIRTUAL_TOKEN_RESERVES - finalTokens c \<and>
     fst (graduationArithmetic b) = Inr v \<and>
     ConsoleError \<notin> set (snd (graduationArithmetic b)) \<and>
     (v = 0 \<longleftrightarrow> SOL_TO_SPEND c \<le> 0) \<and>
     (tokensOut c \<le> 0 \<longleftrightarrow> SOL_TO_SPEND c \<le> 0) \<and>
     (b < 2 ^ 53 \<longrightarrow>
        calculateMinTokensForGraduation (Inr b) = (Inr v, RpcGetBalance # snd (graduationArithmetic b)) \<and>
        ConsoleError \<notin> set (snd (calculateMinTokensForGraduation (Inr b)))) \<and>
     (2 ^ 53 \<le> b \<longrightarrow>
        calculateMinTokensForGraduation (Inr b) = (Inr 0, [RpcGetBalance, ConsoleError]))"
proof -
  have low: "ESTIMATED_COSTS - VIRTUAL_SOL_RESERVES < b"
    using assms by (simp add: const_defs)
  obtain c where c: "bondingCurve b = Inr c" using bondingCurve_defined [OF low] ..
  define v where "v = (if tokensOut c \<le> 0 then 0
          else if tokensOut c > INITIAL_REAL_TOKEN_RESERVES then 713790000000000
          else minTokensOut c)"
  have fs: "0 < finalSol c" by (rule finalTokens_pos(2) [OF c low])
  have fs_eq: "finalSol c = VIRTUAL_SOL_RESERVES + SOL_TO_SPEND c"
    using bondingCurve_fields(1,5) [OF c] by simp
  have kc: "k c = VIRTUAL_SOL_RESERVES * VIRTUAL_TOKEN_RESERVES"
    by (rule bondingCurve_fields(4) [OF c])
  have ft: "finalTokens c = k c div finalSol c"
    using finalTokens_pos(1) [OF c low] kc by simp
  have exact: "finalTokens c * finalSol c \<le> k c" "k c < (finalTokens c + 1) * finalSol c"
    unfolding ft by (rule div_mult_bounds [OF fs])+
  have t: "tokensOut c = VIRTUAL_TOKEN_RESERVES - finalTokens c"
    by (rule bondingCurve_fields(7) [OF c])
  have run: "fst (graduationArithmetic b) = Inr v"
    unfolding graduationArithmetic_run [OF c] v_def by simp
  have noerr: "ConsoleError \<notin> set (snd (graduationArithmetic b))"
    using arithmetic_effects by simp
  have spend: "SOL_TO_SPEND c = b - ESTIMATED_COSTS" by (rule bondingCurve_fields(1) [OF c])
  have zero: "tokensOut c \<le> 0 \<longleftrightarrow> SOL_TO_SPEND c \<le> 0"
  proof
    assume "tokensOut c \<le> 0"
    show "SOL_TO_SPEND c \<le> 0"
    proof (rule ccontr)
      assume "\<not> SOL_TO_SPEND c \<le> 0"
      then have "ESTIMATED_COSTS < b" using spend by simp
      from tokensOut_spend_pos [OF c this] \<open>tokensOut c \<le> 0\<close> show False by simp
    qed
  next
    assume "SOL_TO_SPEND c \<le> 0"
    then have "b \<le> ESTIMATED_COSTS" using spend by simp
    then show "tokensOut c \<le> 0" by (rule tokensOut_spend_nonpos [OF c low])
  qed
  have vzero: "v = 0 \<longleftrightarrow> SOL_TO_SPEND c \<le> 0"
  proof (cases "SOL_TO_SPEND c \<le> 0")
    case True
    then show ?thesis using zero by (simp add: v_def)
  next
    case False
    then have b: "ESTIMATED_COSTS < b" using spend by simp
    have "0 < tokensOut c" using tokensOut_spend_pos [OF c b] by simp
    moreover have "0 < minTokensOut c" using minTokensOut_spend_pos [OF c b] by simp
    ultimately have "v \<noteq> 0" by (simp add: v_def)
    with False show ?thesis by simp
  qed
  have small: "calculateMinTokensForGraduation (Inr b) = (Inr v, RpcGetBalance # snd (graduationArithmetic b)) \<and>
        ConsoleError \<notin> set (snd (calculateMinTokensForGraduation (Inr b)))" if "b < 2 ^ 53"
  proof -
    have "\<bar>b\<bar> < 2 ^ 53" using assms that by simp
    then have conv: "BN_ofNumber b = Inr b" by (rule BN_ofNumber_safe)
    have eq: "calculateMinTokensForGraduation (Inr b) = (Inr v, RpcGetBalance # snd (graduationArithmetic b))"
      unfolding calc_converted [OF conv] using run
      by (cases "graduationArithmetic b") simp
    then show ?thesis using noerr by simp
  qed
  have large: "calculateMinTokensForGraduation (Inr b) = (Inr 0, [RpcGetBalance, ConsoleError])"
    if "2 ^ 53 \<le> b"
  proof -
    have "BN_ofNumber b = Inl AssertionFailed" using that by (simp add: BN_ofNumber_def)
    then show ?thesis by (rule calc_not_converted)
  qed
  from c fs_eq fs kc exact t run noerr vzero zero small large show ?thesis by blast
qed

text \<open>An escrow balance of 0.1 SOL.\<close>

theorem C7_arithmetic_safety_witness:
  "(0 :: int) \<le> 100000000 \<and> (100000000 :: int) < 2 ^ 53 \<and>
   (\<exists>c v. bondingCurve 100000000 = Inr c \<and> 0 < finalSol c \<and>
      calculateMinTokensForGraduation (Inr 100000000) =
        (Inr v, RpcGetBalance # snd (graduationArithmetic 100000000)) \<and> v \<noteq> 0)"
proof -
  have h: "(0 :: int) \<le> 100000000" and s: "(100000000 :: int) < 2 ^ 53" by simp_all
  from C7_arithmetic_safety [OF h] s obtain c v where
    c: "bondingCurve 100000000 = Inr c" "0 < finalSol c"
       "calculateMinTokensForGraduation (Inr 100000000) =
        (Inr v, RpcGetBalance # snd (graduationArithmetic 100000000))"
    and z: "v = 0 \<longleftrightarrow> SOL_TO_SPEND c \<le> 0"
    by blast
  from c(1) have "SOL_TO_SPEND c = 85500000" by (auto simp add: eval_defs)
  with z have "v \<noteq> 0" by simp
  with h s c show ?thesis by blast
qed

subsection \<open>C8: the graduation threshold is advisory\<close>

text \<open>
  C8: for every answer of the RPC node, the estimator returns the same value as the
  same computation without the comparison against \<open>GRADUATION_THRESHOLD\<close>; the two
  differ only in the warning that the token will not graduate.
\<close>

theorem C8_threshold_advisory:
  "fst (calculateMinTokensForGraduation answer) = fst (calculateMinTokens_noThreshold answer) \<and>
   snd (calculateMinTokens_noThreshold answer) =
     filter (\<lambda>e. e \<noteq> WarnNoGraduation) (snd (calculateMinTokensForGraduation answer))"
  by (simp add: calculateMinTokensForGraduation_def calculateMinTokens_noThreshold_def
      graduationTry_def graduationArithmetic_def graduationArithmetic_noThreshold_def
      js_defs cap_value split: sum.splits prod.splits)

subsection \<open>C9: the global bound on the output\<close>

text \<open>
  C9: on every path (RPC failure, failed conversion, division by zero, non-positive
  tokensExpected, cap, normal return) the estimator returns an integer between 0 and
  \<open>INITIAL_REAL_TOKEN_RESERVES * 90 div 100 = 713_790_000_000_000\<close>.
\<close>

theorem C9_output_bound:
  "\<exists>v. fst (calculateMinTokensForGraduation answer) = Inr v \<and> 0 \<le> v \<and>
        v \<le> INITIAL_REAL_TOKEN_RESERVES * 90 div 100 \<and>
        INITIAL_REAL_TOKEN_RESERVES * 90 div 100 = 713790000000000"
proof -
  have cap: "INITIAL_REAL_TOKEN_RESERVES * 90 div 100 = 713790000000000"
    by (simp add: INITIAL_REAL_TOKEN_RESERVES_def)
  have "\<exists>v. fst (calculateMinTokensForGraduation answer) = Inr v \<and> 0 \<le> v \<and> v \<le> 713790000000000"
  proof (cases answer)
    case (Inl e)
    then show ?thesis by (simp add: calc_rpc_failure)
  next
    case (Inr n)
    show ?thesis
    proof (cases "BN_ofNumber n")
      case (Inl e)
      then show ?thesis using Inr by (simp add: calc_not_converted)
    next
      case conv: (Inr b)
      show ?thesis
      proof (cases "bondingCurve b")
        case (Inl e)
        then show ?thesis
          using Inr by (simp add: calc_converted [OF conv] graduationArithmetic_throw)
      next
        case c: (Inr c)
        have m: "0 \<le> minTokensOut c \<and> minTokensOut c \<le> 713790000000000"
          if "0 < tokensOut c" "tokensOut c \<le> INITIAL_REAL_TOKEN_RESERVES"
        proof -
          have e: "minTokensOut c = tokensOut c * 90 div 100"
            using minTokensOut_pos [OF c] that by simp
          have "tokensOut c * 90 div 100 \<le> INITIAL_REAL_TOKEN_RESERVES * 90 div 100"
            by (rule zdiv_mono1) (use that in simp_all)
          then show ?thesis using that e cap by simp
        qed
        show ?thesis
          using Inr m by (simp add: calc_converted [OF conv] graduationArithmetic_run [OF c])
      qed
    qed
  qed
  with cap show ?thesis by simp
qed

subsection \<open>C10: the builder bypasses the estimator\<close>

text \<open>
  C10: when the builder is given a number for \<^verbatim>\<open>minTokensOut\<close> (0 included), it
  has no effect at all, so the estimator, whose first effect is the RPC call, is not
  invoked, and the instruction it builds carries exactly that number (bn.js refuses a
  number of magnitude \<open>2^53\<close> or more, and then no instruction is built). When the
  argument is \<^verbatim>\<open>null\<close> or left out, the instruction carries the estimator's result.
\<close>

theorem C10_estimator_bypass:
  "buildFinalizePumpfunInstruction answer (p\<lparr>minTokensOutArg := Given v\<rparr>) =
     (if \<bar>v\<bar> < 2 ^ 53
      then Inr \<lparr>ixName = tokenName p, ixSymbol = tokenSymbol p, ixUri = tokenUri p, ixMinTokens = v\<rparr>
      else Inl AssertionFailed, []) \<and>
   (\<exists>m out. calculateMinTokensForGraduation answer = (Inr m, RpcGetBalance # out) \<and>
      buildFinalizePumpfunInstruction answer (p\<lparr>minTokensOutArg := Null\<rparr>) =
        (Inr \<lparr>ixName = tokenName p, ixSymbol = tokenSymbol p, ixUri = tokenUri p, ixMinTokens = m\<rparr>,
         RpcGetBalance # out) \<and>
      buildFinalizePumpfunInstruction answer (p\<lparr>minTokensOutArg := Omitted\<rparr>) =
        (Inr \<lparr>ixName = tokenName p, ixSymbol = tokenSymbol p, ixUri = tokenUri p, ixMinTokens = m\<rparr>,
         RpcGetBalance # out))"
proof -
  obtain m out where e: "calculateMinTokensForGraduation answer = (Inr m, RpcGetBalance # out)"
    using calc_returns by blast
  show ?thesis
    unfolding e
    by (simp add: buildFinalizePumpfunInstruction_def withDefault_def e js_defs BN_ofNumber_def)
qed

end
